theory Spec2Isabelle
  imports Main "HOL-Library.AList"
begin

section \<open>The FCM client of go-fcm (client.go)\<close>

text \<open>
  A shallow embedding of \<^verbatim>\<open>client.go\<close>. A Go function returning
  \<^verbatim>\<open>(*Response, error)\<close> becomes a function returning a pair of options
  (\<open>None\<close> is \<^verbatim>\<open>nil\<close>), wrapped in \<open>outcome\<close> because a Go function can
  also panic. The collaborators the file calls but does not define (the message
  validator, the JSON codec, the HTTP stack, the Firebase SDK) are fields of the
  record \<open>env\<close>. Every function threads the list of collaborator calls made so
  far (\<open>event list\<close>), so that the order and the number of calls can be stated.
  Contexts, deadlines and cancellation are not modelled.
\<close>

subsection \<open>Errors and panics\<close>

text \<open>
  A Go \<^verbatim>\<open>error\<close> value is its dynamic type and its text. \<^verbatim>\<open>connectionError(s)\<close>
  and \<^verbatim>\<open>serverError(s)\<close> are the two error types client.go converts strings to;
  every other error (\<^verbatim>\<open>errors.New\<close>, \<^verbatim>\<open>fmt.Errorf\<close>, and the errors of the
  collaborators) is an \<open>errorString\<close>.
\<close>

datatype error = connectionError string | serverError string | errorString string

primrec Error_text :: "error \<Rightarrow> string" where
  "Error_text (connectionError s) = s"
| "Error_text (serverError s) = s"
| "Error_text (errorString s) = s"

definition ErrInvalidAPIKey :: error where
  "ErrInvalidAPIKey = errorString ''client API Key is invalid''"


datatype panic = NilPointerDereference | TypeAssertionFailed

datatype 'a outcome = Return 'a | Panic panic

subsection \<open>Messages, responses and the SDK's types\<close>

text \<open>A value of Go's \<^verbatim>\<open>interface{}\<close>, as far as a data payload holds one.\<close>

datatype go_value = VString string | VInt int | VBool bool | VNil

record Notification =
  Title :: string
  Body :: string

text \<open>
  \<^verbatim>\<open>Message\<close> is declared outside client.go; these are the fields client.go reads.
  \<open>Data\<close> is a Go map: an association list with distinct keys, in one of the orders
  in which \<^verbatim>\<open>range\<close> may visit it.
\<close>

record Message =
  RegistrationIDs :: "string list"
  Notification :: "Notification option"
  Data :: "(string \<times> go_value) list"

text \<open>
  \<^verbatim>\<open>Result\<close> and \<^verbatim>\<open>Response\<close> are declared outside client.go; the fields
  below, \<open>MessageID\<close> of \<open>Response\<close> apart, are the ones client.go writes.
\<close>

record Result =
  Result_Error :: "error option"
  Result_MessageID :: string
  Result_ErrorResponseCode :: string

text \<open>
  Modelled from the spec: the field \<open>MessageID\<close> of \<open>Response\<close>, which client.go
  never mentions. Section 3 lists, among the fields of a Response, "a
  provider-assigned identifier for single-recipient sends"; it is taken to be a
  string, as the identifier the SDK returns is.
\<close>

record Response =
  Success :: int
  Failure :: int
  Results :: "Result list"
  Error :: "error option"
  ErrorResponseCode :: string
  MessageID :: string

text \<open>The zero value \<^verbatim>\<open>Result{}\<close> and \<^verbatim>\<open>Response{}\<close>.\<close>

definition Result_zero :: Result where
  "Result_zero = \<lparr>Result_Error = None, Result_MessageID = [], Result_ErrorResponseCode = []\<rparr>"

definition Response_zero :: Response where
  "Response_zero =
     \<lparr>Success = 0, Failure = 0, Results = [], Error = None, ErrorResponseCode = [], MessageID = []\<rparr>"

text \<open>The types of \<^verbatim>\<open>firebase.google.com/go/messaging\<close> that client.go builds and reads.\<close>

record messaging_Notification =
  sdk_Title :: string
  sdk_Body :: string

record messaging_Message =
  Token :: string
  msg_Data :: "(string \<times> string) list"
  msg_Notification :: "messaging_Notification option"

record messaging_MulticastMessage =
  Tokens :: "string list"
  mc_Data :: "(string \<times> string) list"
  mc_Notification :: "messaging_Notification option"

record messaging_SendResponse =
  sr_Success :: bool
  sr_MessageID :: string
  sr_Error :: "error option"

text \<open>\<^verbatim>\<open>Responses\<close> is a slice of pointers: \<open>None\<close> is a nil element.\<close>

record messaging_BatchResponse =
  SuccessCount :: int
  FailureCount :: int
  Responses :: "messaging_SendResponse option list"

subsection \<open>The client and its collaborators\<close>

datatype http_Client = HttpClient nat
datatype firebase_App = App string
datatype messaging_Client = MessagingClient firebase_App

record http_Request =
  req_Method :: string
  req_URL :: string
  req_Body :: string
  req_Header :: "(string \<times> string) list"

record http_Response =
  StatusCode :: int
  Status :: string
  resp_Body :: string

record Client =
  apiKey :: string
  client :: "http_Client option"
  endpoint :: string
  timeout :: int
  app :: "firebase_App option"
  msgClient :: "messaging_Client option"

datatype event =
    EvValidate
  | EvMarshal
  | EvDo http_Request
  | EvDecode
  | EvMessaging
  | EvSend messaging_Message
  | EvSendMulticast messaging_MulticastMessage

text \<open>
  The collaborators, taken as parameters: \<^verbatim>\<open>Message.Validate\<close> (declared outside
  client.go), \<^verbatim>\<open>json.Marshal\<close>, the failure of \<^verbatim>\<open>http.NewRequest\<close> on a URL,
  \<^verbatim>\<open>http.Client.Do\<close>, the JSON decoder, and the SDK's \<^verbatim>\<open>NewApp\<close>,
  \<^verbatim>\<open>Messaging\<close>, \<^verbatim>\<open>Send\<close> and \<^verbatim>\<open>SendMulticast\<close>. \<open>Do\<close> takes the number of
  requests executed before, so that successive attempts of a retried send may meet
  different answers. \<open>SendMulticast\<close> returns a pointer and an error, as the SDK's
  function does: \<open>None\<close> is the nil batch.
\<close>

record env =
  Validate :: "Message \<Rightarrow> error option"
  Marshal :: "Message \<Rightarrow> error + string"
  NewRequest_error :: "string \<Rightarrow> error option"
  Do :: "http_Client \<Rightarrow> nat \<Rightarrow> http_Request \<Rightarrow> error + http_Response"
  Decode :: "string \<Rightarrow> error + Response"
  NewApp :: "string \<Rightarrow> error + firebase_App"
  Messaging :: "firebase_App \<Rightarrow> error + messaging_Client"
  Send_sdk :: "messaging_Client \<Rightarrow> messaging_Message \<Rightarrow> string \<times> error option"
  SendMulticast :: "messaging_Client \<Rightarrow> messaging_MulticastMessage
                     \<Rightarrow> messaging_BatchResponse option \<times> error option"

definition DefaultEndpoint :: string where
  "DefaultEndpoint = ''https://fcm.googleapis.com/fcm/send''"

definition DefaultTimeout :: int where
  "DefaultTimeout = 30 * 1000000000"

subsection \<open>Construction\<close>

text \<open>
  An \<^verbatim>\<open>Option\<close> is a \<^verbatim>\<open>func(*Client) error\<close>: it updates the client or fails.
\<close>

type_synonym Option = "Client \<Rightarrow> error + Client"

fun apply_opts :: "Client \<Rightarrow> Option list \<Rightarrow> error + Client" where
  "apply_opts c [] = Inr c"
| "apply_opts c (o1 # opts) =
     (case o1 c of Inl err \<Rightarrow> Inl err | Inr c' \<Rightarrow> apply_opts c' opts)"

definition NewClient :: "string \<Rightarrow> Option list \<Rightarrow> error + Client" where
  "NewClient key opts =
     (if key = [] then Inl ErrInvalidAPIKey
      else apply_opts
             \<lparr>apiKey = key, client = Some (HttpClient 0), endpoint = DefaultEndpoint,
              timeout = DefaultTimeout, app = None, msgClient = None\<rparr> opts)"


subsection \<open>The direct HTTP transport: send\<close>

text \<open>\<^verbatim>\<open>%d\<close> of \<^verbatim>\<open>fmt\<close>: the decimal digits of an integer.\<close>

fun digits :: "nat \<Rightarrow> string" where
  "digits n =
     (if n < 10 then [char_of (48 + n)]
      else digits (n div 10) @ [char_of (48 + n mod 10)])"

declare digits.simps [simp del]

definition itoa :: "int \<Rightarrow> string" where
  "itoa i = (if i < 0 then CHR ''-'' # digits (nat (- i)) else digits (nat i))"

definition status_error_text :: "http_Response \<Rightarrow> string" where
  "status_error_text resp = itoa (StatusCode resp) @ '' error: '' @ Status resp"

definition NewRequest :: "env \<Rightarrow> string \<Rightarrow> string \<Rightarrow> string \<Rightarrow> error + http_Request" where
  "NewRequest e method url body =
     (case NewRequest_error e url of
        Some err \<Rightarrow> Inl err
      | None \<Rightarrow> Inr \<lparr>req_Method = method, req_URL = url, req_Body = body, req_Header = []\<rparr>)"

definition count_Do :: "event list \<Rightarrow> nat" where
  "count_Do t = length (filter (\<lambda>ev. case ev of EvDo _ \<Rightarrow> True | _ \<Rightarrow> False) t)"

text \<open>Lines 178-179: the two headers added to the request.\<close>

definition add_headers :: "Client \<Rightarrow> http_Request \<Rightarrow> http_Request" where
  "add_headers c req =
     req\<lparr>req_Header := req_Header req @ [(''Authorization'', ''key='' @ apiKey c),
                                          (''Content-Type'', ''application/json'')]\<rparr>"

text \<open>
  \<^verbatim>\<open>c.client.Do\<close> on a nil \<^verbatim>\<open>c.client\<close> dereferences it. A request that was
  executed is recorded as \<open>EvDo\<close>, a decoded body as \<open>EvDecode\<close>.
\<close>

definition send ::
  "env \<Rightarrow> Client \<Rightarrow> string \<Rightarrow> event list
     \<Rightarrow> (Response option \<times> error option) outcome \<times> event list" where
  "send e c data t =
     (case NewRequest e ''POST'' (endpoint c) data of
        Inl err \<Rightarrow> (Return (None, Some err), t)
      | Inr req0 \<Rightarrow>
          (case client c of
             None \<Rightarrow> (Panic NilPointerDereference, t)
           | Some h \<Rightarrow>
               (case Do e h (count_Do t) (add_headers c req0) of
                  Inl err \<Rightarrow>
                    (Return (None, Some (connectionError (Error_text err))),
                     t @ [EvDo (add_headers c req0)])
                | Inr resp \<Rightarrow>
                    (if StatusCode resp \<noteq> 200 then
                       (if StatusCode resp \<ge> 500
                        then (Return (None, Some (serverError (status_error_text resp))),
                              t @ [EvDo (add_headers c req0)])
                        else (Return (None, Some (errorString (status_error_text resp))),
                              t @ [EvDo (add_headers c req0)]))
                     else (case Decode e (resp_Body resp) of
                             Inl err \<Rightarrow>
                               (Return (None, Some err),
                                t @ [EvDo (add_headers c req0), EvDecode])
                           | Inr response \<Rightarrow>
                               (Return (Some response, None),
                                t @ [EvDo (add_headers c req0), EvDecode]))))))"

subsection \<open>The SDK transport: sendByApp\<close>

text \<open>
  Lines 207-213: the messaging handle is created on first use and stored in the client.
  \<^verbatim>\<open>c.app.Messaging\<close> on a nil app dereferences it.
\<close>

definition obtain_msgClient ::
  "env \<Rightarrow> Client \<Rightarrow> event list
     \<Rightarrow> (error + messaging_Client) outcome \<times> Client \<times> event list" where
  "obtain_msgClient e c t =
     (case msgClient c of
        Some m \<Rightarrow> (Return (Inr m), c, t)
      | None \<Rightarrow>
          (case app c of
             None \<Rightarrow> (Panic NilPointerDereference, c, t)
           | Some a \<Rightarrow>
               (case Messaging e a of
                  Inl err \<Rightarrow> (Return (Inl err), c\<lparr>msgClient := None\<rparr>, t @ [EvMessaging])
                | Inr m \<Rightarrow> (Return (Inr m), c\<lparr>msgClient := Some m\<rparr>, t @ [EvMessaging]))))"

text \<open>
  Lines 215-218: \<^verbatim>\<open>data[k] = v.(string)\<close> for every entry. The type assertion has
  no second result, so it panics on a value that is not a string.
\<close>

fun data_to_strings ::
  "(string \<times> string) list \<Rightarrow> (string \<times> go_value) list \<Rightarrow> (string \<times> string) list outcome" where
  "data_to_strings acc [] = Return acc"
| "data_to_strings acc ((k, VString s) # kvs) = data_to_strings (AList.update k s acc) kvs"
| "data_to_strings acc ((k, v) # kvs) = Panic TypeAssertionFailed"

text \<open>Lines 225-230 and 252-257: the notification is copied when there is one.\<close>

definition to_sdk_Notification :: "Notification option \<Rightarrow> messaging_Notification option" where
  "to_sdk_Notification n =
     (case n of
        None \<Rightarrow> None
      | Some x \<Rightarrow> Some \<lparr>sdk_Title = Title x, sdk_Body = Body x\<rparr>)"

text \<open>Lines 269-281: one \<^verbatim>\<open>Result\<close> is appended for each element of \<^verbatim>\<open>r.Responses\<close>.\<close>

definition to_Result :: "messaging_SendResponse \<Rightarrow> Result" where
  "to_Result result =
     (case sr_Error result of
        None \<Rightarrow> Result_zero\<lparr>Result_Error := sr_Error result,
                             Result_MessageID := sr_MessageID result\<rparr>
      | Some err \<Rightarrow> Result_zero\<lparr>Result_Error := sr_Error result,
                                 Result_ErrorResponseCode := Error_text err\<rparr>)"

fun append_Results ::
  "Result list \<Rightarrow> messaging_SendResponse option list \<Rightarrow> Result list outcome" where
  "append_Results acc [] = Return acc"
| "append_Results acc (None # rs) = Panic NilPointerDereference"
| "append_Results acc (Some result # rs) = append_Results (acc @ [to_Result result]) rs"

text \<open>Lines 219-245: exactly one registration id.\<close>

definition send_single ::
  "env \<Rightarrow> messaging_Client \<Rightarrow> Message \<Rightarrow> (string \<times> string) list \<Rightarrow> event list
     \<Rightarrow> (Response option \<times> error option) outcome \<times> event list" where
  "send_single e m msg data t =
     (let fcmMsg = \<lparr>Token = hd (RegistrationIDs msg), msg_Data = data,
                    msg_Notification = to_sdk_Notification (Notification msg)\<rparr>;
          (r, err) = Send_sdk e m fcmMsg;
          res = (if err \<noteq> None then Response_zero\<lparr>Success := 0, Failure := 1\<rparr>
                 else Response_zero\<lparr>Success := 1, Failure := 0\<rparr>);
          res = res\<lparr>Error := err\<rparr>;
          res = res\<lparr>ErrorResponseCode := r\<rparr>
      in (Return (Some res, err), t @ [EvSend fcmMsg]))"

text \<open>
  Lines 246-284: no registration id, or two and more. \<^verbatim>\<open>r\<close> is a pointer: reading
  \<^verbatim>\<open>r.SuccessCount\<close> or \<^verbatim>\<open>r.Responses\<close> through a nil \<^verbatim>\<open>r\<close> panics.
\<close>

definition send_multicast ::
  "env \<Rightarrow> messaging_Client \<Rightarrow> Message \<Rightarrow> (string \<times> string) list \<Rightarrow> event list
     \<Rightarrow> (Response option \<times> error option) outcome \<times> event list" where
  "send_multicast e m msg data t =
     (let fcmMsg = \<lparr>Tokens = RegistrationIDs msg, mc_Data = data,
                    mc_Notification = to_sdk_Notification (Notification msg)\<rparr>;
          (r, err) = SendMulticast e m fcmMsg;
          t' = t @ [EvSendMulticast fcmMsg];
          counted =
            (if err \<noteq> None
             then Return (Response_zero\<lparr>Success := 0,
                                         Failure := int (length (RegistrationIDs msg))\<rparr>)
             else (case r of
                     None \<Rightarrow> Panic NilPointerDereference
                   | Some b \<Rightarrow> Return (Response_zero\<lparr>Success := SuccessCount b, Failure := 0\<rparr>)))
      in (case counted of
            Panic p \<Rightarrow> (Panic p, t')
          | Return res \<Rightarrow>
              (case r of
                 None \<Rightarrow> (Panic NilPointerDereference, t')
               | Some b \<Rightarrow>
                   (case append_Results (Results res) (Responses b) of
                      Panic p \<Rightarrow> (Panic p, t')
                    | Return rs \<Rightarrow> (Return (Some (res\<lparr>Results := rs\<rparr>), err), t')))))"

definition sendByApp ::
  "env \<Rightarrow> Client \<Rightarrow> Message \<Rightarrow> event list
     \<Rightarrow> (Response option \<times> error option) outcome \<times> Client \<times> event list" where
  "sendByApp e c msg t =
     (case obtain_msgClient e c t of
        (Panic p, c', t') \<Rightarrow> (Panic p, c', t')
      | (Return (Inl err), c', t') \<Rightarrow> (Return (None, Some err), c', t')
      | (Return (Inr m), c', t') \<Rightarrow>
          (case data_to_strings [] (Data msg) of
             Panic p \<Rightarrow> (Panic p, c', t')
           | Return data \<Rightarrow>
               (if length (RegistrationIDs msg) > 0 \<and> length (RegistrationIDs msg) < 2
                then (let (r, t'') = send_single e m msg data t' in (r, c', t''))
                else (let (r, t'') = send_multicast e m msg data t' in (r, c', t'')))))"

subsection \<open>Sending once\<close>

definition SendWithContext ::
  "env \<Rightarrow> Client \<Rightarrow> Message \<Rightarrow> event list
     \<Rightarrow> (Response option \<times> error option) outcome \<times> Client \<times> event list" where
  "SendWithContext e c msg t =
     (case Validate e msg of
        Some err \<Rightarrow> (Return (None, Some err), c, t @ [EvValidate])
      | None \<Rightarrow>
          (if app c \<noteq> None then sendByApp e c msg (t @ [EvValidate])
           else (case Marshal e msg of
                   Inl err \<Rightarrow> (Return (None, Some err), c, t @ [EvValidate, EvMarshal])
                 | Inr data \<Rightarrow>
                     (let (r, t') = send e c data (t @ [EvValidate, EvMarshal])
                      in (r, c, t')))))"

text \<open>\<^verbatim>\<open>Send\<close> only derives a context with the client's timeout.\<close>

definition Send ::
  "env \<Rightarrow> Client \<Rightarrow> Message \<Rightarrow> event list
     \<Rightarrow> (Response option \<times> error option) outcome \<times> Client \<times> event list" where
  "Send e c msg t = SendWithContext e c msg t"

subsection \<open>Sending with retries\<close>

text \<open>
  Modelled from the spec: \<^verbatim>\<open>retry\<close> and the error classification it consults are
  defined in a file of the repository that is not at hand. Section 4.2: a
  ConnectionError and a ServerError are retry-eligible, any other error is not.
\<close>

primrec retry_eligible :: "error \<Rightarrow> bool" where
  "retry_eligible (connectionError s) = True"
| "retry_eligible (serverError s) = True"
| "retry_eligible (errorString s) = False"

text \<open>
  Modelled from the spec: \<^verbatim>\<open>retry\<close>, section 4.3. The operation is executed up to
  \<open>maxAttempts\<close> times, and once when \<open>maxAttempts\<close> is 1 or less; after a failed
  attempt an error that is not retry-eligible is returned at once; when the attempts
  are exhausted the last error is returned. \<open>retry_go fn k\<close> is an attempt with \<open>k\<close>
  more attempts allowed after it. The operation is a closure over mutable state
  \<open>'s\<close>; a panic of the operation unwinds through \<^verbatim>\<open>retry\<close>.
\<close>

fun retry_go ::
  "('s \<Rightarrow> error option outcome \<times> 's) \<Rightarrow> nat \<Rightarrow> 's \<Rightarrow> error option outcome \<times> 's" where
  "retry_go fn 0 s = fn s"
| "retry_go fn (Suc k) s =
     (case fn s of
        (Panic p, s') \<Rightarrow> (Panic p, s')
      | (Return None, s') \<Rightarrow> (Return None, s')
      | (Return (Some err), s') \<Rightarrow>
          (if retry_eligible err then retry_go fn k s' else (Return (Some err), s')))"

text \<open>
  Modelled from the spec: \<^verbatim>\<open>retry(fn, attempts)\<close>. \<open>attempts\<close> of 1 or less allow
  no attempt after the first.
\<close>

definition retry ::
  "('s \<Rightarrow> error option outcome \<times> 's) \<Rightarrow> int \<Rightarrow> 's \<Rightarrow> error option outcome \<times> 's" where
  "retry fn attempts s = retry_go fn (nat (attempts - 1)) s"

text \<open>
  Lines 153-159: the closure runs \<^verbatim>\<open>send\<close>, stores its response in the captured
  variable \<^verbatim>\<open>resp\<close> and returns its error. Its state is \<^verbatim>\<open>resp\<close> and the event list.
\<close>

definition send_attempt ::
  "env \<Rightarrow> Client \<Rightarrow> string \<Rightarrow> Response option \<times> event list
     \<Rightarrow> error option outcome \<times> (Response option \<times> event list)" where
  "send_attempt e c data s =
     (case send e c data (snd s) of
        (Panic p, t') \<Rightarrow> (Panic p, (fst s, t'))
      | (Return (resp, er), t') \<Rightarrow> (Return er, (resp, t')))"

definition SendWithRetryWithContext ::
  "env \<Rightarrow> Client \<Rightarrow> Message \<Rightarrow> int \<Rightarrow> event list
     \<Rightarrow> (Response option \<times> error option) outcome \<times> event list" where
  "SendWithRetryWithContext e c msg retryAttempts t =
     (case Validate e msg of
        Some err \<Rightarrow> (Return (None, Some err), t @ [EvValidate])
      | None \<Rightarrow>
          (case Marshal e msg of
             Inl err \<Rightarrow> (Return (None, Some err), t @ [EvValidate, EvMarshal])
           | Inr data \<Rightarrow>
               (case retry (send_attempt e c data) retryAttempts
                       (Some Response_zero, t @ [EvValidate, EvMarshal]) of
                  (Panic p, (resp, t')) \<Rightarrow> (Panic p, t')
                | (Return (Some err), (resp, t')) \<Rightarrow> (Return (None, Some err), t')
                | (Return None, (resp, t')) \<Rightarrow> (Return (resp, None), t'))))"

definition SendWithRetry ::
  "env \<Rightarrow> Client \<Rightarrow> Message \<Rightarrow> int \<Rightarrow> event list
     \<Rightarrow> (Response option \<times> error option) outcome \<times> event list" where
  "SendWithRetry e c msg retryAttempts t = SendWithRetryWithContext e c msg retryAttempts t"

subsection \<open>Concrete collaborators\<close>

text \<open>
  Collaborators to run the definitions on: the \<open>n\<close>-th request is answered by the
  \<open>n\<close>-th element of \<open>replies\<close> and by a 200 with a decodable body after them; the
  SDK answers a single send with \<open>single\<close> and a multicast with \<open>multi\<close>.
\<close>

definition ok_Response :: Response where
  "ok_Response = Response_zero\<lparr>Success := 1, Failure := 0\<rparr>"

definition demo_env ::
  "(error + http_Response) list \<Rightarrow> string \<times> error option
     \<Rightarrow> messaging_BatchResponse option \<times> error option \<Rightarrow> env" where
  "demo_env replies single multi =
     \<lparr>Validate = (\<lambda>msg. if RegistrationIDs msg = [] then Some (errorString ''invalid message'')
                       else None),
      Marshal = (\<lambda>msg. Inr ''{}''),
      NewRequest_error = (\<lambda>url. None),
      Do = (\<lambda>h n req. if n < length replies then replies ! n
                       else Inr \<lparr>StatusCode = 200, Status = ''200 OK'', resp_Body = ''ok''\<rparr>),
      Decode = (\<lambda>body. if body = ''ok'' then Inr ok_Response
                       else Inl (errorString ''unexpected end of JSON input'')),
      NewApp = (\<lambda>path. Inr (App path)),
      Messaging = (\<lambda>a. Inr (MessagingClient a)),
      Send_sdk = (\<lambda>m msg. single),
      SendMulticast = (\<lambda>m msg. multi)\<rparr>"

definition reply :: "int \<Rightarrow> string \<Rightarrow> string \<Rightarrow> error + http_Response" where
  "reply code text body = Inr \<lparr>StatusCode = code, Status = text, resp_Body = body\<rparr>"

definition key_Client :: Client where
  "key_Client =
     \<lparr>apiKey = ''k'', client = Some (HttpClient 0), endpoint = DefaultEndpoint,
      timeout = DefaultTimeout, app = None, msgClient = None\<rparr>"

definition app_Client :: Client where
  "app_Client =
     \<lparr>apiKey = [], client = None, endpoint = DefaultEndpoint,
      timeout = DefaultTimeout, app = Some (App ''sa.json''), msgClient = None\<rparr>"


definition demo_Message :: "string list \<Rightarrow> Message" where
  "demo_Message ids =
     \<lparr>RegistrationIDs = ids, Notification = Some \<lparr>Title = ''hi'', Body = ''there''\<rparr>,
      Data = [(''k'', VString ''v'')]\<rparr>"

subsection \<open>Observing a retried operation\<close>

text \<open>
  \<open>counted fn\<close> is \<open>fn\<close> with a counter of its executions beside its state;
  \<open>state_after fn k s\<close> is the state that \<open>k\<close> executions of \<open>fn\<close> lead to from
  \<open>s\<close>. \<open>scripted_op errs final\<close> is an operation whose \<open>n\<close>-th execution returns the
  \<open>n\<close>-th element of \<open>errs\<close>, and \<open>final\<close> after them; its state is the number of
  executions.
\<close>

definition counted :: "('s \<Rightarrow> 'r \<times> 's) \<Rightarrow> nat \<times> 's \<Rightarrow> 'r \<times> (nat \<times> 's)" where
  "counted fn cs = (fst (fn (snd cs)), (Suc (fst cs), snd (fn (snd cs))))"

definition state_after :: "('s \<Rightarrow> 'r \<times> 's) \<Rightarrow> nat \<Rightarrow> 's \<Rightarrow> 's" where
  "state_after fn k s = ((\<lambda>x. snd (fn x)) ^^ k) s"

definition scripted_op :: "error list \<Rightarrow> error option \<Rightarrow> nat \<Rightarrow> error option outcome \<times> nat" where
  "scripted_op errs final n =
     (Return (if n < length errs then Some (errs ! n) else final), Suc n)"

subsection \<open>Vocabulary of the statements\<close>

text \<open>
  \<open>is_string v\<close>: the type assertion \<^verbatim>\<open>v.(string)\<close> succeeds. \<open>is_http_event\<close> and
  \<open>is_sdk_event\<close> tell the calls of the direct HTTP transport from those of the SDK.
\<close>

fun is_string :: "go_value \<Rightarrow> bool" where
  "is_string (VString s) = True"
| "is_string v = False"

fun is_http_event :: "event \<Rightarrow> bool" where
  "is_http_event (EvDo req) = True"
| "is_http_event EvDecode = True"
| "is_http_event ev = False"

fun is_sdk_event :: "event \<Rightarrow> bool" where
  "is_sdk_event EvMessaging = True"
| "is_sdk_event (EvSend m) = True"
| "is_sdk_event (EvSendMulticast m) = True"
| "is_sdk_event ev = False"

text \<open>
  A multicast answer of the SDK for three recipients of which the second failed, and
  the answer of a call that failed as a whole.
\<close>

definition partial_batch :: "messaging_BatchResponse option \<times> error option" where
  "partial_batch =
     (Some \<lparr>SuccessCount = 2, FailureCount = 1,
            Responses =
              [Some \<lparr>sr_Success = True, sr_MessageID = ''projects/p/messages/1'', sr_Error = None\<rparr>,
               Some \<lparr>sr_Success = False, sr_MessageID = [],
                     sr_Error = Some (errorString ''registration token is not valid'')\<rparr>,
               Some \<lparr>sr_Success = True, sr_MessageID = ''projects/p/messages/3'', sr_Error = None\<rparr>]\<rparr>,
      None)"

definition failed_batch :: "messaging_BatchResponse option \<times> error option" where
  "failed_batch = (None, Some (errorString ''dial tcp: connection refused''))"

section \<open>Properties\<close>

subsection \<open>The direct HTTP transport\<close>

text \<open>What \<open>send\<close> returns, branch by branch.\<close>

lemma send_NewRequest_fails:
  "NewRequest e ''POST'' (endpoint c) data = Inl err \<Longrightarrow> send e c data t = (Return (None, Some err), t)"
  by (simp add: send_def)


lemma send_Do_fails:
  "NewRequest e ''POST'' (endpoint c) data = Inr req0 \<Longrightarrow> client c = Some h \<Longrightarrow>
   Do e h (count_Do t) (add_headers c req0) = Inl err \<Longrightarrow>
   send e c data t = (Return (None, Some (connectionError (Error_text err))), t @ [EvDo (add_headers c req0)])"
  by (simp add: send_def)

lemma send_status_5xx:
  "NewRequest e ''POST'' (endpoint c) data = Inr req0 \<Longrightarrow> client c = Some h \<Longrightarrow>
   Do e h (count_Do t) (add_headers c req0) = Inr resp \<Longrightarrow> StatusCode resp \<ge> 500 \<Longrightarrow>
   send e c data t = (Return (None, Some (serverError (status_error_text resp))), t @ [EvDo (add_headers c req0)])"
  by (simp add: send_def)

lemma send_status_other:
  "NewRequest e ''POST'' (endpoint c) data = Inr req0 \<Longrightarrow> client c = Some h \<Longrightarrow>
   Do e h (count_Do t) (add_headers c req0) = Inr resp \<Longrightarrow> StatusCode resp \<noteq> 200 \<Longrightarrow>
   StatusCode resp < 500 \<Longrightarrow>
   send e c data t = (Return (None, Some (errorString (status_error_text resp))), t @ [EvDo (add_headers c req0)])"
  by (simp add: send_def)

lemma send_status_200:
  "NewRequest e ''POST'' (endpoint c) data = Inr req0 \<Longrightarrow> client c = Some h \<Longrightarrow>
   Do e h (count_Do t) (add_headers c req0) = Inr resp \<Longrightarrow> StatusCode resp = 200 \<Longrightarrow>
   send e c data t =
     (case Decode e (resp_Body resp) of
        Inl err \<Rightarrow> (Return (None, Some err), t @ [EvDo (add_headers c req0), EvDecode])
      | Inr response \<Rightarrow> (Return (Some response, None), t @ [EvDo (add_headers c req0), EvDecode]))"
  by (simp add: send_def)

lemma NewRequest_demo:
  "NewRequest (demo_env rs s m) meth url body =
     Inr \<lparr>req_Method = meth, req_URL = url, req_Body = body, req_Header = []\<rparr>"
  by (simp add: NewRequest_def demo_env_def)

lemma Do_demo:
  "Do (demo_env rs s m) h n req =
     (if n < length rs then rs ! n
      else Inr \<lparr>StatusCode = 200, Status = ''200 OK'', resp_Body = ''ok''\<rparr>)"
  by (simp add: demo_env_def)

lemma Decode_demo_ok: "Decode (demo_env rs s m) ''ok'' = Inr ok_Response"
  by (simp add: demo_env_def)

lemma client_key_Client: "client key_Client = Some (HttpClient 0)"
  by (simp add: key_Client_def)

text \<open>
  Claim C8. A direct-HTTP send whose request is created and executed fails with a
  \<open>connectionError\<close> when the request yields no response, with a \<open>serverError\<close>
  (retry-eligible) when the status is 500 or greater, and with a plain error (not
  retry-eligible) for every other status that is not 200. The error depends on the
  answer to the request only: from any other event history \<open>t'\<close> that meets the
  same answer, the result is the same.
\<close>

theorem send_classifies_failure:
  assumes req: "NewRequest e ''POST'' (endpoint c) data = Inr req0"
      and cl: "client c = Some h"
  shows "(\<forall>err. Do e h (count_Do t) (add_headers c req0) = Inl err \<longrightarrow>
            fst (send e c data t) = Return (None, Some (connectionError (Error_text err))))
       \<and> (\<forall>resp. Do e h (count_Do t) (add_headers c req0) = Inr resp \<and> StatusCode resp \<ge> 500 \<longrightarrow>
            fst (send e c data t) = Return (None, Some (serverError (status_error_text resp)))
            \<and> retry_eligible (serverError (status_error_text resp)))
       \<and> (\<forall>resp. Do e h (count_Do t) (add_headers c req0) = Inr resp
                 \<and> StatusCode resp \<noteq> 200 \<and> StatusCode resp < 500 \<longrightarrow>
            fst (send e c data t) = Return (None, Some (errorString (status_error_text resp)))
            \<and> \<not> retry_eligible (errorString (status_error_text resp)))
       \<and> (\<forall>t'. Do e h (count_Do t') (add_headers c req0) = Do e h (count_Do t) (add_headers c req0) \<longrightarrow>
            fst (send e c data t') = fst (send e c data t))"
proof (intro conjI allI impI)
  fix err assume "Do e h (count_Do t) (add_headers c req0) = Inl err"
  then show "fst (send e c data t) = Return (None, Some (connectionError (Error_text err)))"
    by (simp add: send_Do_fails [OF req cl])
next
  fix resp assume "Do e h (count_Do t) (add_headers c req0) = Inr resp \<and> 500 \<le> StatusCode resp"
  then show "fst (send e c data t) = Return (None, Some (serverError (status_error_text resp)))"
    by (simp add: send_status_5xx [OF req cl])
next
  fix resp show "retry_eligible (serverError (status_error_text resp))" by simp
next
  fix resp assume "Do e h (count_Do t) (add_headers c req0) = Inr resp
                 \<and> StatusCode resp \<noteq> 200 \<and> StatusCode resp < 500"
  then show "fst (send e c data t) = Return (None, Some (errorString (status_error_text resp)))"
    by (simp add: send_status_other [OF req cl])
next
  fix resp show "\<not> retry_eligible (errorString (status_error_text resp))" by simp
next
  fix t' assume "Do e h (count_Do t') (add_headers c req0) = Do e h (count_Do t) (add_headers c req0)"
  then show "fst (send e c data t') = fst (send e c data t)"
    using req cl by (simp add: send_def split: sum.splits)
qed

theorem send_classifies_failure_witness:
  "fst (send (demo_env [Inl (errorString ''dial tcp: i/o timeout'')] ([], None) (None, None))
          key_Client ''{}'' [])
     = Return (None, Some (connectionError ''dial tcp: i/o timeout''))
   \<and> fst (send (demo_env [reply 500 ''500 Internal Server Error'' []] ([], None) (None, None))
            key_Client ''{}'' [])
     = Return (None, Some (serverError ''500 error: 500 Internal Server Error''))
   \<and> fst (send (demo_env [reply 400 ''400 Bad Request'' []] ([], None) (None, None))
            key_Client ''{}'' [])
     = Return (None, Some (errorString ''400 error: 400 Bad Request''))
   \<and> fst (send (demo_env [reply 400 ''400 Bad Request'' [], reply 400 ''400 Bad Request'' []]
                   ([], None) (None, None))
            key_Client ''{}'' [EvDo \<lparr>req_Method = [], req_URL = [], req_Body = [], req_Header = []\<rparr>])
     = fst (send (demo_env [reply 400 ''400 Bad Request'' [], reply 400 ''400 Bad Request'' []]
                   ([], None) (None, None))
            key_Client ''{}'' [])"
proof -
  let ?r0 = "\<lparr>req_Method = ''POST'', req_URL = endpoint key_Client, req_Body = ''{}'',
              req_Header = []\<rparr>"
  let ?E1 = "demo_env [Inl (errorString ''dial tcp: i/o timeout'')] ([], None) (None, None)"
  let ?E2 = "demo_env [reply 500 ''500 Internal Server Error'' []] ([], None) (None, None)"
  let ?E3 = "demo_env [reply 400 ''400 Bad Request'' []] ([], None) (None, None)"
  let ?E4 = "demo_env [reply 400 ''400 Bad Request'' [], reply 400 ''400 Bad Request'' []]
               ([], None) (None, None)"
  let ?r5 = "\<lparr>StatusCode = 500, Status = ''500 Internal Server Error'', resp_Body = []\<rparr>"
  let ?r4 = "\<lparr>StatusCode = 400, Status = ''400 Bad Request'', resp_Body = []\<rparr>"
  have t5: "status_error_text ?r5 = ''500 error: 500 Internal Server Error''" by code_simp
  have t4: "status_error_text ?r4 = ''400 error: 400 Bad Request''" by code_simp
  have d1: "Do ?E1 (HttpClient 0) (count_Do []) (add_headers key_Client ?r0)
              = Inl (errorString ''dial tcp: i/o timeout'')"
    by (simp add: Do_demo count_Do_def)
  have d2: "Do ?E2 (HttpClient 0) (count_Do []) (add_headers key_Client ?r0) = Inr ?r5
              \<and> 500 \<le> StatusCode ?r5"
    by (simp add: Do_demo count_Do_def reply_def)
  have d3: "Do ?E3 (HttpClient 0) (count_Do []) (add_headers key_Client ?r0) = Inr ?r4
              \<and> StatusCode ?r4 \<noteq> 200 \<and> StatusCode ?r4 < 500"
    by (simp add: Do_demo count_Do_def reply_def)
  have d4: "Do ?E4 (HttpClient 0)
               (count_Do [EvDo \<lparr>req_Method = [], req_URL = [], req_Body = [], req_Header = []\<rparr>])
               (add_headers key_Client ?r0)
            = Do ?E4 (HttpClient 0) (count_Do []) (add_headers key_Client ?r0)"
    by (simp add: Do_demo count_Do_def reply_def)
  have q1: "NewRequest ?E1 ''POST'' (endpoint key_Client) ''{}'' = Inr ?r0" by (rule NewRequest_demo)
  have q2: "NewRequest ?E2 ''POST'' (endpoint key_Client) ''{}'' = Inr ?r0" by (rule NewRequest_demo)
  have q3: "NewRequest ?E3 ''POST'' (endpoint key_Client) ''{}'' = Inr ?r0" by (rule NewRequest_demo)
  have q4: "NewRequest ?E4 ''POST'' (endpoint key_Client) ''{}'' = Inr ?r0" by (rule NewRequest_demo)
  note T1 = send_classifies_failure [OF q1 client_key_Client, of "[]"]
  note T2 = send_classifies_failure [OF q2 client_key_Client, of "[]"]
  note T3 = send_classifies_failure [OF q3 client_key_Client, of "[]"]
  note T4 = send_classifies_failure [OF q4 client_key_Client, of "[]"]
  have a: "fst (send ?E1 key_Client ''{}'' []) = Return (None, Some (connectionError ''dial tcp: i/o timeout''))"
    using T1 d1 by simp
  have b: "fst (send ?E2 key_Client ''{}'' []) = Return (None, Some (serverError ''500 error: 500 Internal Server Error''))"
    using T2 d2 t5 by simp
  have c: "fst (send ?E3 key_Client ''{}'' []) = Return (None, Some (errorString ''400 error: 400 Bad Request''))"
    using T3 d3 t4 by simp
  have d: "fst (send ?E4 key_Client ''{}'' [EvDo \<lparr>req_Method = [], req_URL = [], req_Body = [], req_Header = []\<rparr>])
     = fst (send ?E4 key_Client ''{}'' [])"
    using T4 d4 by blast
  from a b c d show ?thesis by blast
qed

text \<open>
  Claim C6, as stated, fails: a response with status 201 and a body that decodes is
  answered with a plain error, not with the decoded Response.
\<close>

theorem send_201_counterexample:
  "Do (demo_env [reply 201 ''201 Created'' ''ok''] ([], None) (None, None)) (HttpClient 0) 0
      (add_headers key_Client
         \<lparr>req_Method = ''POST'', req_URL = DefaultEndpoint, req_Body = ''{}'', req_Header = []\<rparr>)
     = Inr \<lparr>StatusCode = 201, Status = ''201 Created'', resp_Body = ''ok''\<rparr>
   \<and> Decode (demo_env [reply 201 ''201 Created'' ''ok''] ([], None) (None, None)) ''ok''
       = Inr ok_Response
   \<and> send (demo_env [reply 201 ''201 Created'' ''ok''] ([], None) (None, None)) key_Client ''{}'' []
       = (Return (None, Some (errorString ''201 error: 201 Created'')),
          [EvDo (add_headers key_Client
                   \<lparr>req_Method = ''POST'', req_URL = DefaultEndpoint, req_Body = ''{}'',
                    req_Header = []\<rparr>)])"
proof -
  let ?E = "demo_env [reply 201 ''201 Created'' ''ok''] ([], None) (None, None)"
  let ?r0 = "\<lparr>req_Method = ''POST'', req_URL = endpoint key_Client, req_Body = ''{}'',
              req_Header = []\<rparr>"
  let ?resp = "\<lparr>StatusCode = 201, Status = ''201 Created'', resp_Body = ''ok''\<rparr>"
  have ep: "endpoint key_Client = DefaultEndpoint" by (simp add: key_Client_def)
  have q: "NewRequest ?E ''POST'' (endpoint key_Client) ''{}'' = Inr ?r0" by (rule NewRequest_demo)
  have d: "Do ?E (HttpClient 0) (count_Do []) (add_headers key_Client ?r0) = Inr ?resp"
    by (simp add: Do_demo count_Do_def reply_def)
  have tx: "status_error_text ?resp = ''201 error: 201 Created''" by code_simp
  have "send ?E key_Client ''{}'' []
          = (Return (None, Some (errorString (status_error_text ?resp))),
             [] @ [EvDo (add_headers key_Client ?r0)])"
    by (rule send_status_other [OF q client_key_Client d]) simp_all
  then show ?thesis using d
    by (simp add: tx ep Decode_demo_ok count_Do_def)
qed


text \<open>
  Claim C6, amended. A direct-HTTP send that receives a response with status exactly
  200 decodes the body directly into the Response: when the body decodes, the call
  returns that Response and no error; when it does not, the call returns the
  decoder's error. A response with any other status, the other 2xx included, makes
  the call return an error and no Response.
\<close>

theorem send_200_decodes:
  assumes req: "NewRequest e ''POST'' (endpoint c) data = Inr req0"
      and cl: "client c = Some h"
      and do: "Do e h (count_Do t) (add_headers c req0) = Inr resp"
  shows "(StatusCode resp = 200 \<longrightarrow>
            (\<forall>response. Decode e (resp_Body resp) = Inr response \<longrightarrow>
               fst (send e c data t) = Return (Some response, None))
          \<and> (\<forall>err. Decode e (resp_Body resp) = Inl err \<longrightarrow>
               fst (send e c data t) = Return (None, Some err)))
       \<and> (StatusCode resp \<noteq> 200 \<longrightarrow>
            (\<exists>err. fst (send e c data t) = Return (None, Some err)))"
proof (intro conjI allI impI)
  fix response
  assume "StatusCode resp = 200" and "Decode e (resp_Body resp) = Inr response"
  then show "fst (send e c data t) = Return (Some response, None)"
    by (simp add: send_status_200 [OF req cl do])
next
  fix err
  assume "StatusCode resp = 200" and "Decode e (resp_Body resp) = Inl err"
  then show "fst (send e c data t) = Return (None, Some err)"
    by (simp add: send_status_200 [OF req cl do])
next
  assume ne: "StatusCode resp \<noteq> 200"
  show "\<exists>err. fst (send e c data t) = Return (None, Some err)"
  proof (cases "StatusCode resp \<ge> 500")
    case True
    then show ?thesis by (simp add: send_status_5xx [OF req cl do])
  next
    case False
    then have "StatusCode resp < 500" by simp
    then show ?thesis using ne by (simp add: send_status_other [OF req cl do])
  qed
qed

theorem send_200_decodes_witness:
  "fst (send (demo_env [] ([], None) (None, None)) key_Client ''{}'' [])
     = Return (Some ok_Response, None)
   \<and> fst (send (demo_env [reply 200 ''200 OK'' []] ([], None) (None, None)) key_Client ''{}'' [])
     = Return (None, Some (errorString ''unexpected end of JSON input''))
   \<and> (\<exists>err. fst (send (demo_env [reply 204 ''204 No Content'' []] ([], None) (None, None))
                     key_Client ''{}'' [])
              = Return (None, Some err))"
proof -
  let ?E1 = "demo_env [] ([], None) (None, None)"
  let ?E2 = "demo_env [reply 200 ''200 OK'' []] ([], None) (None, None)"
  let ?E3 = "demo_env [reply 204 ''204 No Content'' []] ([], None) (None, None)"
  let ?r0 = "\<lparr>req_Method = ''POST'', req_URL = endpoint key_Client, req_Body = ''{}'',
              req_Header = []\<rparr>"
  have q1: "NewRequest ?E1 ''POST'' (endpoint key_Client) ''{}'' = Inr ?r0" by (rule NewRequest_demo)
  have q2: "NewRequest ?E2 ''POST'' (endpoint key_Client) ''{}'' = Inr ?r0" by (rule NewRequest_demo)
  have q3: "NewRequest ?E3 ''POST'' (endpoint key_Client) ''{}'' = Inr ?r0" by (rule NewRequest_demo)
  have d1: "Do ?E1 (HttpClient 0) (count_Do []) (add_headers key_Client ?r0)
              = Inr \<lparr>StatusCode = 200, Status = ''200 OK'', resp_Body = ''ok''\<rparr>"
    by (simp add: Do_demo)
  have d2: "Do ?E2 (HttpClient 0) (count_Do []) (add_headers key_Client ?r0)
              = Inr \<lparr>StatusCode = 200, Status = ''200 OK'', resp_Body = []\<rparr>"
    by (simp add: Do_demo count_Do_def reply_def)
  have d3: "Do ?E3 (HttpClient 0) (count_Do []) (add_headers key_Client ?r0)
              = Inr \<lparr>StatusCode = 204, Status = ''204 No Content'', resp_Body = []\<rparr>"
    by (simp add: Do_demo count_Do_def reply_def)
  have k1: "Decode ?E1 ''ok'' = Inr ok_Response" by (rule Decode_demo_ok)
  have k2: "Decode ?E2 [] = Inl (errorString ''unexpected end of JSON input'')"
    by (simp add: demo_env_def)
  have a: "fst (send ?E1 key_Client ''{}'' []) = Return (Some ok_Response, None)"
    using send_200_decodes [OF q1 client_key_Client d1] k1 by simp
  have b: "fst (send ?E2 key_Client ''{}'' [])
             = Return (None, Some (errorString ''unexpected end of JSON input''))"
    using send_200_decodes [OF q2 client_key_Client d2] k2 by simp
  have c: "\<exists>err. fst (send ?E3 key_Client ''{}'' []) = Return (None, Some err)"
    using send_200_decodes [OF q3 client_key_Client d3] by simp
  from a b c show ?thesis by blast
qed

subsection \<open>The retry policy\<close>

text \<open>
  The retry policy is the one modelled from the spec. As long as the attempts fail
  with retry-eligible errors and attempts remain, \<open>retry_go\<close> goes on to the next
  attempt.
\<close>

lemma state_after_0: "state_after fn 0 s = s"
  by (simp add: state_after_def)

lemma state_after_Suc: "state_after fn (Suc k) s = snd (fn (state_after fn k s))"
  by (simp add: state_after_def)

lemma state_after_shift: "state_after fn k (snd (fn s)) = state_after fn (Suc k) s"
  by (induction k) (simp_all add: state_after_def)

lemma retry_go_counted_0:
  "retry_go (counted fn) 0 (n, s) = (fst (fn s), (Suc n, snd (fn s)))"
  by (simp add: counted_def)

lemma retry_go_counted_stop:
  assumes "fst (fn s) = Return (Some err)" and "\<not> retry_eligible err"
  shows "retry_go (counted fn) k (n, s) = (Return (Some err), (Suc n, snd (fn s)))"
  using assms by (cases k) (simp_all add: counted_def)

lemma retry_go_counted_again:
  assumes "fst (fn s) = Return (Some err)" and "retry_eligible err"
  shows "retry_go (counted fn) (Suc k) (n, s) = retry_go (counted fn) k (Suc n, snd (fn s))"
  using assms by (simp add: counted_def)

lemma retry_go_counted_skip:
  assumes "\<forall>i<j. \<exists>err. fst (fn (state_after fn i s)) = Return (Some err) \<and> retry_eligible err"
      and "j \<le> k"
  shows "retry_go (counted fn) k (n, s)
           = retry_go (counted fn) (k - j) (n + j, state_after fn j s)"
  using assms
proof (induction j arbitrary: k n s)
  case 0
  then show ?case by (simp add: state_after_0)
next
  case (Suc j)
  from Suc.prems(2) obtain k' where k: "k = Suc k'" and jk: "j \<le> k'"
    by (cases k) auto
  from Suc.prems(1) have "\<exists>err. fst (fn (state_after fn 0 s)) = Return (Some err) \<and> retry_eligible err"
    by blast
  then obtain err where e0: "fst (fn s) = Return (Some err)" "retry_eligible err"
    by (auto simp: state_after_0)
  have rest: "\<forall>i<j. \<exists>err. fst (fn (state_after fn i (snd (fn s)))) = Return (Some err)
                         \<and> retry_eligible err"
  proof (intro allI impI)
    fix i assume "i < j"
    then have "Suc i < Suc j" by simp
    with Suc.prems(1) show "\<exists>err. fst (fn (state_after fn i (snd (fn s)))) = Return (Some err)
                         \<and> retry_eligible err"
      unfolding state_after_shift by blast
  qed
  have "retry_go (counted fn) k (n, s) = retry_go (counted fn) k' (Suc n, snd (fn s))"
    unfolding k using e0 by (simp add: counted_def)
  also have "\<dots> = retry_go (counted fn) (k' - j) (Suc n + j, state_after fn j (snd (fn s)))"
    by (rule Suc.IH [OF rest jk])
  finally show ?case by (simp add: k state_after_shift)
qed

text \<open>
  Claim C7. With \<open>maxAttempts\<close> at most 1 (zero and negative values included) the
  operation is executed exactly once and its result is returned. With
  \<open>maxAttempts = N\<close>, \<open>N\<close> at least 1, and an operation that always fails with a
  ServerError, the operation is executed exactly \<open>N\<close> times and the error of the
  last execution is returned. An error that is not retry-eligible, at whichever
  attempt within the bound it occurs, is returned by that attempt: the operation is
  not executed again. The counter of \<open>counted\<close> gives the number of executions.
\<close>

theorem retry_bounded_attempts:
  "(attempts \<le> 1 \<longrightarrow>
      retry (counted fn) attempts (0, s) = (fst (fn s), (1, snd (fn s))))
   \<and> (1 \<le> attempts \<and> (\<forall>x. \<exists>m. fst (fn x) = Return (Some (serverError m))) \<longrightarrow>
        retry (counted fn) attempts (0, s)
          = (fst (fn (state_after fn (nat attempts - 1) s)),
             (nat attempts, state_after fn (nat attempts) s))
        \<and> (\<exists>m. fst (retry (counted fn) attempts (0, s)) = Return (Some (serverError m))))
   \<and> (j < nat (max attempts 1)
        \<and> (\<forall>i<j. \<exists>err. fst (fn (state_after fn i s)) = Return (Some err) \<and> retry_eligible err)
        \<and> fst (fn (state_after fn j s)) = Return (Some err) \<and> \<not> retry_eligible err \<longrightarrow>
        retry (counted fn) attempts (0, s)
          = (Return (Some err), (Suc j, state_after fn (Suc j) s)))"
proof (intro conjI impI)
  assume "attempts \<le> 1"
  then have "nat (attempts - 1) = 0" by simp
  then show "retry (counted fn) attempts (0, s) = (fst (fn s), (1, snd (fn s)))"
    by (simp add: retry_def counted_def)
next
  assume a: "1 \<le> attempts \<and> (\<forall>x. \<exists>m. fst (fn x) = Return (Some (serverError m)))"
  let ?k = "nat (attempts - 1)"
  have el: "\<forall>i<?k. \<exists>err. fst (fn (state_after fn i s)) = Return (Some err) \<and> retry_eligible err"
  proof (intro allI impI)
    fix i
    from a obtain m where "fst (fn (state_after fn i s)) = Return (Some (serverError m))"
      by blast
    then show "\<exists>err. fst (fn (state_after fn i s)) = Return (Some err) \<and> retry_eligible err"
      by simp
  qed
  have "retry (counted fn) attempts (0, s) = retry_go (counted fn) (?k - ?k) (0 + ?k, state_after fn ?k s)"
    unfolding retry_def by (rule retry_go_counted_skip [OF el]) simp
  also have "\<dots> = (fst (fn (state_after fn ?k s)), (Suc ?k, snd (fn (state_after fn ?k s))))"
    by (simp add: counted_def)
  finally have r: "retry (counted fn) attempts (0, s)
      = (fst (fn (state_after fn ?k s)), (Suc ?k, state_after fn (Suc ?k) s))"
    by (simp add: state_after_Suc)
  from a have a1: "1 \<le> attempts" by blast
  have k1: "nat attempts - 1 = ?k" and k2: "nat attempts = Suc ?k"
    using a1 by linarith+
  show "retry (counted fn) attempts (0, s)
          = (fst (fn (state_after fn (nat attempts - 1) s)),
             (nat attempts, state_after fn (nat attempts) s))"
    unfolding k1 unfolding k2 by (rule r)
  from a obtain m where "fst (fn (state_after fn ?k s)) = Return (Some (serverError m))"
    by blast
  with r show "\<exists>m. fst (retry (counted fn) attempts (0, s)) = Return (Some (serverError m))"
    by simp
next
  assume a: "j < nat (max attempts 1)
        \<and> (\<forall>i<j. \<exists>err. fst (fn (state_after fn i s)) = Return (Some err) \<and> retry_eligible err)
        \<and> fst (fn (state_after fn j s)) = Return (Some err) \<and> \<not> retry_eligible err"
  let ?k = "nat (attempts - 1)"
  from a have "j < nat (max attempts 1)" by blast
  then have jk: "j \<le> ?k" by linarith
  from a have el: "\<forall>i<j. \<exists>err. fst (fn (state_after fn i s)) = Return (Some err) \<and> retry_eligible err"
    by blast
  from a have st: "fst (fn (state_after fn j s)) = Return (Some err)" "\<not> retry_eligible err"
    by blast+
  have "retry (counted fn) attempts (0, s) = retry_go (counted fn) (?k - j) (0 + j, state_after fn j s)"
    unfolding retry_def by (rule retry_go_counted_skip [OF el jk])
  also have "\<dots> = (Return (Some err), (Suc (0 + j), snd (fn (state_after fn j s))))"
    using st by (rule retry_go_counted_stop [where fn = fn and s = "state_after fn j s"])
  finally show "retry (counted fn) attempts (0, s)
          = (Return (Some err), (Suc j, state_after fn (Suc j) s))"
    by (simp add: state_after_Suc)
qed

lemma state_after_scripted_op: "state_after (scripted_op errs final) k n = n + k"
  by (induction k) (simp_all add: state_after_0 state_after_Suc scripted_op_def)

theorem retry_bounded_attempts_witness:
  "retry (counted (scripted_op [] (Some (serverError ''503 error: 503 Service Unavailable'')))) 0 (0, 0)
     = (Return (Some (serverError ''503 error: 503 Service Unavailable'')), (1, 1))
   \<and> retry (counted (scripted_op [] (Some (serverError ''503 error: 503 Service Unavailable'')))) 3 (0, 0)
     = (Return (Some (serverError ''503 error: 503 Service Unavailable'')), (3, 3))
   \<and> retry (counted (scripted_op [serverError ''503 error: 503 Service Unavailable'',
                                     errorString ''400 error: 400 Bad Request''] None)) 5 (0, 0)
     = (Return (Some (errorString ''400 error: 400 Bad Request'')), (2, 2))"
proof -
  let ?e5 = "serverError ''503 error: 503 Service Unavailable''"
  let ?e4 = "errorString ''400 error: 400 Bad Request''"
  let ?f = "scripted_op [] (Some ?e5)"
  let ?g = "scripted_op [?e5, ?e4] None"
  have always: "\<forall>x. \<exists>m. fst (?f x) = Return (Some (serverError m))"
    by (simp add: scripted_op_def)
  have a: "retry (counted ?f) 0 (0, 0) = (Return (Some ?e5), (1, 1))"
    using retry_bounded_attempts [of 0 ?f 0]
    by (simp add: scripted_op_def)
  have b: "retry (counted ?f) 3 (0, 0) = (Return (Some ?e5), (3, 3))"
    using retry_bounded_attempts [of 3 ?f 0] always
    by (simp add: state_after_scripted_op) (simp add: scripted_op_def)
  have first: "\<forall>i<1. \<exists>err. fst (?g (state_after ?g i 0)) = Return (Some err) \<and> retry_eligible err"
    by (simp add: state_after_scripted_op scripted_op_def)
  have second: "fst (?g (state_after ?g 1 0)) = Return (Some ?e4) \<and> \<not> retry_eligible ?e4"
    by (simp add: state_after_scripted_op scripted_op_def)
  have c: "retry (counted ?g) 5 (0, 0) = (Return (Some ?e4), (2, 2))"
    using retry_bounded_attempts [of 5 ?g 0 1 ?e4] first second
    by (simp add: state_after_scripted_op)
  from a b c show ?thesis by blast
qed

subsection \<open>The SDK transport\<close>

text \<open>What \<open>sendByApp\<close> returns, step by step.\<close>

lemma obtain_msgClient_demo:
  "obtain_msgClient (demo_env rs s m) app_Client t
     = (Return (Inr (MessagingClient (App ''sa.json''))),
        app_Client\<lparr>msgClient := Some (MessagingClient (App ''sa.json''))\<rparr>, t @ [EvMessaging])"
  by (simp add: obtain_msgClient_def demo_env_def app_Client_def)

lemma sendByApp_converted:
  assumes "obtain_msgClient e c t = (Return (Inr m), c', t')"
      and "data_to_strings [] (Data msg) = Return data"
  shows "sendByApp e c msg t =
           (if length (RegistrationIDs msg) = 1
            then (fst (send_single e m msg data t'), c', snd (send_single e m msg data t'))
            else (fst (send_multicast e m msg data t'), c', snd (send_multicast e m msg data t')))"
proof -
  have "(0 < length (RegistrationIDs msg) \<and> length (RegistrationIDs msg) < 2)
          = (length (RegistrationIDs msg) = 1)"
    by linarith
  then show ?thesis
    using assms by (simp add: sendByApp_def split_beta)
qed

lemma sendByApp_not_converted:
  assumes "obtain_msgClient e c t = (Return (Inr m), c', t')"
      and "data_to_strings [] (Data msg) = Panic p"
  shows "sendByApp e c msg t = (Panic p, c', t')"
  using assms by (simp add: sendByApp_def)

lemma send_single_result:
  assumes "Send_sdk e m \<lparr>Token = hd (RegistrationIDs msg), msg_Data = data,
                          msg_Notification = to_sdk_Notification (Notification msg)\<rparr> = (r, err)"
  shows "send_single e m msg data t =
           (Return (Some \<lparr>Success = (if err = None then 1 else 0),
                          Failure = (if err = None then 0 else 1),
                          Results = [], Error = err, ErrorResponseCode = r, MessageID = []\<rparr>, err),
            t @ [EvSend \<lparr>Token = hd (RegistrationIDs msg), msg_Data = data,
                          msg_Notification = to_sdk_Notification (Notification msg)\<rparr>])"
  using assms by (cases err) (simp_all add: send_single_def Response_zero_def)

lemma send_multicast_nil:
  assumes "SendMulticast e m \<lparr>Tokens = RegistrationIDs msg, mc_Data = data,
                                mc_Notification = to_sdk_Notification (Notification msg)\<rparr> = (None, err)"
  shows "fst (send_multicast e m msg data t) = Panic NilPointerDereference"
  using assms by (simp add: send_multicast_def)

lemma send_multicast_result:
  assumes "SendMulticast e m \<lparr>Tokens = RegistrationIDs msg, mc_Data = data,
                                mc_Notification = to_sdk_Notification (Notification msg)\<rparr> = (Some b, err)"
  shows "fst (send_multicast e m msg data t) =
           (case append_Results [] (Responses b) of
              Panic p \<Rightarrow> Panic p
            | Return rs \<Rightarrow>
                Return (Some \<lparr>Success = (if err = None then SuccessCount b else 0),
                               Failure = (if err = None then 0
                                          else int (length (RegistrationIDs msg))),
                               Results = rs, Error = None, ErrorResponseCode = [],
                               MessageID = []\<rparr>, err))"
  using assms
  by (cases err)
     (simp_all add: send_multicast_def Response_zero_def split: outcome.splits)

lemma append_Results_all:
  "append_Results acc (map Some rs) = Return (acc @ map to_Result rs)"
  by (induction rs arbitrary: acc) simp_all


text \<open>The conversion of the data payload, and the one SDK call each branch makes.\<close>

lemma snd_send_single:
  "snd (send_single e m msg data t) =
     t @ [EvSend \<lparr>Token = hd (RegistrationIDs msg), msg_Data = data,
                   msg_Notification = to_sdk_Notification (Notification msg)\<rparr>]"
  by (simp add: send_single_def split_beta Let_def)

lemma snd_send_multicast:
  "snd (send_multicast e m msg data t) =
     t @ [EvSendMulticast \<lparr>Tokens = RegistrationIDs msg, mc_Data = data,
                            mc_Notification = to_sdk_Notification (Notification msg)\<rparr>]"
  by (simp add: send_multicast_def split_beta Let_def split: outcome.splits option.splits)

lemma data_to_strings_strings:
  "list_all (\<lambda>kv. is_string (snd kv)) d \<Longrightarrow> \<exists>data. data_to_strings acc d = Return data"
proof (induction d arbitrary: acc)
  case Nil
  then show ?case by simp
next
  case (Cons kv d)
  obtain k v where kv: "kv = (k, v)" by (cases kv)
  with Cons.prems obtain s where v: "v = VString s" by (cases v) simp_all
  from Cons.prems have "list_all (\<lambda>kv. is_string (snd kv)) d" by simp
  from Cons.IH [OF this] show ?case by (simp add: kv v)
qed

lemma data_to_strings_not_strings:
  "\<not> list_all (\<lambda>kv. is_string (snd kv)) d \<Longrightarrow> data_to_strings acc d = Panic TypeAssertionFailed"
proof (induction d arbitrary: acc)
  case Nil
  then show ?case by simp
next
  case (Cons kv d)
  obtain k v where kv: "kv = (k, v)" by (cases kv)
  show ?case
  proof (cases v)
    case (VString s)
    with Cons.prems kv have "\<not> list_all (\<lambda>kv. is_string (snd kv)) d" by simp
    from Cons.IH [OF this] show ?thesis by (simp add: kv VString)
  qed (simp_all add: kv)
qed

lemma update_fresh: "k \<notin> fst ` set al \<Longrightarrow> AList.update k v al = al @ [(k, v)]"
  by (induction al) auto

lemma data_to_strings_distinct:
  assumes "data_to_strings acc d = Return data"
      and "distinct (map fst d)"
      and "fst ` set acc \<inter> fst ` set d = {}"
  shows "map (\<lambda>(k, s). (k, VString s)) data = map (\<lambda>(k, s). (k, VString s)) acc @ d"
  using assms
proof (induction d arbitrary: acc)
  case Nil
  then show ?case by simp
next
  case (Cons kv d)
  obtain k v where kv: "kv = (k, v)" by (cases kv)
  from Cons.prems(1) obtain s where v: "v = VString s"
    by (cases v) (simp_all add: kv)
  from Cons.prems(3) have fresh: "k \<notin> fst ` set acc" by (auto simp: kv)
  have up: "AList.update k s acc = acc @ [(k, s)]" by (rule update_fresh [OF fresh])
  from Cons.prems(1) have run: "data_to_strings (acc @ [(k, s)]) d = Return data"
    by (simp add: kv v up)
  from Cons.prems(2) have dist: "distinct (map fst d)" and knew: "k \<notin> fst ` set d"
    by (simp_all add: kv)
  from Cons.prems(3) knew have disj: "fst ` set (acc @ [(k, s)]) \<inter> fst ` set d = {}"
    by (auto simp: kv)
  from Cons.IH [OF run dist disj] show ?case by (simp add: kv v)
qed

text \<open>
  Claim C10. Once the messaging handle is there, a message whose data values are all
  strings is converted (for distinct keys, to the same entries with the strings
  unwrapped) and the send proceeds: the SDK is called, once, with the converted
  data. The precondition is necessary: with a data value that is not a string the
  type assertion panics, and \<open>sendByApp\<close> ends there without calling the SDK.
\<close>

theorem sdk_data_must_be_strings:
  assumes mc: "obtain_msgClient e c t = (Return (Inr m), c', t')"
  shows "(list_all (\<lambda>kv. is_string (snd kv)) (Data msg) \<longrightarrow>
            (\<exists>data. data_to_strings [] (Data msg) = Return data
               \<and> (distinct (map fst (Data msg)) \<longrightarrow>
                    Data msg = map (\<lambda>(k, s). (k, VString s)) data)
               \<and> snd (snd (sendByApp e c msg t)) =
                    t' @ [if length (RegistrationIDs msg) = 1
                          then EvSend \<lparr>Token = hd (RegistrationIDs msg), msg_Data = data,
                                  msg_Notification = to_sdk_Notification (Notification msg)\<rparr>
                          else EvSendMulticast \<lparr>Tokens = RegistrationIDs msg, mc_Data = data,
                                  mc_Notification = to_sdk_Notification (Notification msg)\<rparr>]))
       \<and> (\<not> list_all (\<lambda>kv. is_string (snd kv)) (Data msg) \<longrightarrow>
            sendByApp e c msg t = (Panic TypeAssertionFailed, c', t'))"
proof (intro conjI impI)
  assume "list_all (\<lambda>kv. is_string (snd kv)) (Data msg)"
  then obtain data where conv: "data_to_strings [] (Data msg) = Return data"
    using data_to_strings_strings by blast
  have shape: "distinct (map fst (Data msg)) \<longrightarrow> Data msg = map (\<lambda>(k, s). (k, VString s)) data"
  proof
    assume "distinct (map fst (Data msg))"
    from data_to_strings_distinct [OF conv this] show "Data msg = map (\<lambda>(k, s). (k, VString s)) data"
      by simp
  qed
  have "snd (snd (sendByApp e c msg t)) =
          t' @ [if length (RegistrationIDs msg) = 1
                then EvSend \<lparr>Token = hd (RegistrationIDs msg), msg_Data = data,
                        msg_Notification = to_sdk_Notification (Notification msg)\<rparr>
                else EvSendMulticast \<lparr>Tokens = RegistrationIDs msg, mc_Data = data,
                        mc_Notification = to_sdk_Notification (Notification msg)\<rparr>]"
    by (simp add: sendByApp_converted [OF mc conv] snd_send_single snd_send_multicast)
  with conv shape show "\<exists>data. data_to_strings [] (Data msg) = Return data
               \<and> (distinct (map fst (Data msg)) \<longrightarrow>
                    Data msg = map (\<lambda>(k, s). (k, VString s)) data)
               \<and> snd (snd (sendByApp e c msg t)) =
                    t' @ [if length (RegistrationIDs msg) = 1
                          then EvSend \<lparr>Token = hd (RegistrationIDs msg), msg_Data = data,
                                  msg_Notification = to_sdk_Notification (Notification msg)\<rparr>
                          else EvSendMulticast \<lparr>Tokens = RegistrationIDs msg, mc_Data = data,
                                  mc_Notification = to_sdk_Notification (Notification msg)\<rparr>]"
    by blast
next
  assume "\<not> list_all (\<lambda>kv. is_string (snd kv)) (Data msg)"
  then have "data_to_strings [] (Data msg) = Panic TypeAssertionFailed"
    by (rule data_to_strings_not_strings)
  then show "sendByApp e c msg t = (Panic TypeAssertionFailed, c', t')"
    by (rule sendByApp_not_converted [OF mc])
qed

theorem sdk_data_must_be_strings_witness:
  "data_to_strings [] (Data (demo_Message [''a''])) = Return [(''k'', ''v'')]
   \<and> snd (snd (sendByApp (demo_env [] (''projects/p/messages/7'', None) partial_batch)
                  app_Client (demo_Message [''a'']) []))
       = [EvMessaging,
          EvSend \<lparr>Token = ''a'', msg_Data = [(''k'', ''v'')],
                  msg_Notification = Some \<lparr>sdk_Title = ''hi'', sdk_Body = ''there''\<rparr>\<rparr>]
   \<and> sendByApp (demo_env [] (''projects/p/messages/7'', None) partial_batch)
         app_Client ((demo_Message [''a''])\<lparr>Data := [(''k'', VInt 3)]\<rparr>) []
       = (Panic TypeAssertionFailed,
          app_Client\<lparr>msgClient := Some (MessagingClient (App ''sa.json''))\<rparr>, [EvMessaging])"
proof -
  let ?E = "demo_env [] (''projects/p/messages/7'', None) partial_batch"
  let ?good = "demo_Message [''a'']"
  let ?bad = "(demo_Message [''a''])\<lparr>Data := [(''k'', VInt 3)]\<rparr>"
  have g: "list_all (\<lambda>kv. is_string (snd kv)) (Data ?good)"
    by (simp add: demo_Message_def)
  have b: "\<not> list_all (\<lambda>kv. is_string (snd kv)) (Data ?bad)"
    by (simp add: demo_Message_def)
  have conv: "data_to_strings [] (Data ?good) = Return [(''k'', ''v'')]"
    by (simp add: demo_Message_def)
  have mc: "obtain_msgClient ?E app_Client []
              = (Return (Inr (MessagingClient (App ''sa.json''))),
                 app_Client\<lparr>msgClient := Some (MessagingClient (App ''sa.json''))\<rparr>,
                 [] @ [EvMessaging])"
    by (rule obtain_msgClient_demo)
  from sdk_data_must_be_strings [OF mc, of ?good] g conv
  have 1: "snd (snd (sendByApp ?E app_Client ?good []))
       = [EvMessaging,
          EvSend \<lparr>Token = ''a'', msg_Data = [(''k'', ''v'')],
                  msg_Notification = Some \<lparr>sdk_Title = ''hi'', sdk_Body = ''there''\<rparr>\<rparr>]"
    by (simp add: demo_Message_def to_sdk_Notification_def)
  from sdk_data_must_be_strings [OF mc, of ?bad] b
  have 2: "sendByApp ?E app_Client ?bad []
       = (Panic TypeAssertionFailed,
          app_Client\<lparr>msgClient := Some (MessagingClient (App ''sa.json''))\<rparr>, [EvMessaging])"
    by simp
  from conv 1 2 show ?thesis by blast
qed

text \<open>The multicast branch, for an answer of the SDK with and without a batch.\<close>

lemma sendByApp_multicast_result:
  assumes mc: "obtain_msgClient e c t = (Return (Inr m), c', t')"
      and conv: "data_to_strings [] (Data msg) = Return data"
      and many: "length (RegistrationIDs msg) \<noteq> 1"
      and sdk: "SendMulticast e m \<lparr>Tokens = RegistrationIDs msg, mc_Data = data,
                   mc_Notification = to_sdk_Notification (Notification msg)\<rparr> = (Some b, err)"
      and rs: "Responses b = map Some rs"
  shows "fst (sendByApp e c msg t) =
           Return (Some \<lparr>Success = (if err = None then SuccessCount b else 0),
                          Failure = (if err = None then 0
                                     else int (length (RegistrationIDs msg))),
                          Results = map to_Result rs, Error = None, ErrorResponseCode = [],
                          MessageID = []\<rparr>, err)"
  using many
  by (simp add: sendByApp_converted [OF mc conv] send_multicast_result [OF sdk] rs
        append_Results_all)

lemma sendByApp_multicast_nil:
  assumes mc: "obtain_msgClient e c t = (Return (Inr m), c', t')"
      and conv: "data_to_strings [] (Data msg) = Return data"
      and many: "length (RegistrationIDs msg) \<noteq> 1"
      and sdk: "SendMulticast e m \<lparr>Tokens = RegistrationIDs msg, mc_Data = data,
                   mc_Notification = to_sdk_Notification (Notification msg)\<rparr> = (None, err)"
  shows "fst (sendByApp e c msg t) = Panic NilPointerDereference"
  using many
  by (simp add: sendByApp_converted [OF mc conv] send_multicast_nil [OF sdk])

lemma demo_Message_converts:
  "data_to_strings [] (Data (demo_Message ids)) = Return [(''k'', ''v'')]"
  by (simp add: demo_Message_def)

lemma SendMulticast_demo: "SendMulticast (demo_env rs s multi) m fcm = multi"
  by (simp add: demo_env_def)

lemma Send_sdk_demo: "Send_sdk (demo_env rs s multi) m fcm = s"
  by (simp add: demo_env_def)

text \<open>
  Claim C1 says that a multicast send whose provider call succeeds returns a Response
  with Success equal to the provider's success count, Failure equal to the number of
  per-recipient failures, and one Result per recipient in input order, carrying the
  message identifier or the error's text. For three recipients of which the second
  failed, \<open>sendByApp\<close> returns Success = 2 and the three Results in order, but
  Failure = 0: line 266 assigns the constant 0 where the number of failures belongs.
\<close>

theorem sendByApp_partial_failure_response:
  "fst (sendByApp (demo_env [] ([], None) partial_batch) app_Client
          (demo_Message [''a'', ''b'', ''c'']) [])
     = Return
         (Some \<lparr>Success = 2, Failure = 0,
                 Results =
                   [\<lparr>Result_Error = None, Result_MessageID = ''projects/p/messages/1'',
                     Result_ErrorResponseCode = []\<rparr>,
                    \<lparr>Result_Error = Some (errorString ''registration token is not valid''),
                     Result_MessageID = [],
                     Result_ErrorResponseCode = ''registration token is not valid''\<rparr>,
                    \<lparr>Result_Error = None, Result_MessageID = ''projects/p/messages/3'',
                     Result_ErrorResponseCode = []\<rparr>],
                 Error = None, ErrorResponseCode = [], MessageID = []\<rparr>,
          None)"
proof -
  let ?E = "demo_env [] ([], None) partial_batch"
  let ?msg = "demo_Message [''a'', ''b'', ''c'']"
  let ?b = "\<lparr>SuccessCount = 2, FailureCount = 1,
            Responses =
              [Some \<lparr>sr_Success = True, sr_MessageID = ''projects/p/messages/1'', sr_Error = None\<rparr>,
               Some \<lparr>sr_Success = False, sr_MessageID = [],
                     sr_Error = Some (errorString ''registration token is not valid'')\<rparr>,
               Some \<lparr>sr_Success = True, sr_MessageID = ''projects/p/messages/3'', sr_Error = None\<rparr>]\<rparr>"
  let ?rs = "[\<lparr>sr_Success = True, sr_MessageID = ''projects/p/messages/1'', sr_Error = None\<rparr>,
              \<lparr>sr_Success = False, sr_MessageID = [],
                sr_Error = Some (errorString ''registration token is not valid'')\<rparr>,
              \<lparr>sr_Success = True, sr_MessageID = ''projects/p/messages/3'', sr_Error = None\<rparr>]"
  have many: "length (RegistrationIDs ?msg) \<noteq> 1" by (simp add: demo_Message_def)
  have sdk: "SendMulticast ?E (MessagingClient (App ''sa.json''))
               \<lparr>Tokens = RegistrationIDs ?msg, mc_Data = [(''k'', ''v'')],
                mc_Notification = to_sdk_Notification (Notification ?msg)\<rparr> = (Some ?b, None)"
    by (simp add: SendMulticast_demo partial_batch_def)
  have rs: "Responses ?b = map Some ?rs" by simp
  show ?thesis
    unfolding sendByApp_multicast_result [OF obtain_msgClient_demo demo_Message_converts many sdk rs]
    by (simp add: to_Result_def Result_zero_def)
qed

text \<open>
  Claim C3 says that Success + Failure equals the number of recipients of a multicast
  send. For the same send to three recipients the sum is 2.
\<close>

theorem sendByApp_partial_failure_sum:
  "length (RegistrationIDs (demo_Message [''a'', ''b'', ''c''])) = 3
   \<and> (case fst (sendByApp (demo_env [] ([], None) partial_batch) app_Client
                   (demo_Message [''a'', ''b'', ''c'']) []) of
        Return (Some res, err) \<Rightarrow> err = None \<and> Success res + Failure res = 2
      | _ \<Rightarrow> False)"
proof -
  let ?E = "demo_env [] ([], None) partial_batch"
  let ?msg = "demo_Message [''a'', ''b'', ''c'']"
  let ?b = "\<lparr>SuccessCount = 2, FailureCount = 1,
            Responses =
              [Some \<lparr>sr_Success = True, sr_MessageID = ''projects/p/messages/1'', sr_Error = None\<rparr>,
               Some \<lparr>sr_Success = False, sr_MessageID = [],
                     sr_Error = Some (errorString ''registration token is not valid'')\<rparr>,
               Some \<lparr>sr_Success = True, sr_MessageID = ''projects/p/messages/3'', sr_Error = None\<rparr>]\<rparr>"
  let ?rs = "[\<lparr>sr_Success = True, sr_MessageID = ''projects/p/messages/1'', sr_Error = None\<rparr>,
              \<lparr>sr_Success = False, sr_MessageID = [],
                sr_Error = Some (errorString ''registration token is not valid'')\<rparr>,
              \<lparr>sr_Success = True, sr_MessageID = ''projects/p/messages/3'', sr_Error = None\<rparr>]"
  have many: "length (RegistrationIDs ?msg) \<noteq> 1" by (simp add: demo_Message_def)
  have sdk: "SendMulticast ?E (MessagingClient (App ''sa.json''))
               \<lparr>Tokens = RegistrationIDs ?msg, mc_Data = [(''k'', ''v'')],
                mc_Notification = to_sdk_Notification (Notification ?msg)\<rparr> = (Some ?b, None)"
    by (simp add: SendMulticast_demo partial_batch_def)
  have rs: "Responses ?b = map Some ?rs" by simp
  have len: "length (RegistrationIDs ?msg) = 3" by (simp add: demo_Message_def)
  show ?thesis
    unfolding sendByApp_multicast_result [OF obtain_msgClient_demo demo_Message_converts many sdk rs]
    using len by simp
qed

text \<open>
  Claim C4 says that a multicast send whose provider call fails returns the error and
  a Response with Success = 0 and Failure equal to the number of recipients. When the
  SDK answers a failed call with a nil batch and the error, \<open>sendByApp\<close> records these
  counts and then reads \<^verbatim>\<open>r.Responses\<close> through the nil batch (line 269): it panics
  and returns nothing.
\<close>

theorem sendByApp_failed_multicast_panics:
  "SendMulticast (demo_env [] ([], None) failed_batch) (MessagingClient (App ''sa.json''))
      \<lparr>Tokens = [''a'', ''b''], mc_Data = [(''k'', ''v'')],
       mc_Notification = Some \<lparr>sdk_Title = ''hi'', sdk_Body = ''there''\<rparr>\<rparr>
     = (None, Some (errorString ''dial tcp: connection refused''))
   \<and> fst (sendByApp (demo_env [] ([], None) failed_batch) app_Client
            (demo_Message [''a'', ''b'']) [])
       = Panic NilPointerDereference
   \<and> fst (SendWithContext (demo_env [] ([], None) failed_batch) app_Client
            (demo_Message [''a'', ''b'']) [])
       = Panic NilPointerDereference"
proof -
  let ?E = "demo_env [] ([], None) failed_batch"
  let ?msg = "demo_Message [''a'', ''b'']"
  have many: "length (RegistrationIDs ?msg) \<noteq> 1" by (simp add: demo_Message_def)
  have sdk: "SendMulticast ?E (MessagingClient (App ''sa.json''))
               \<lparr>Tokens = RegistrationIDs ?msg, mc_Data = [(''k'', ''v'')],
                mc_Notification = to_sdk_Notification (Notification ?msg)\<rparr>
             = (None, Some (errorString ''dial tcp: connection refused''))"
    by (simp add: SendMulticast_demo failed_batch_def)
  have a: "fst (sendByApp ?E app_Client ?msg t) = Panic NilPointerDereference" for t
    by (rule sendByApp_multicast_nil [OF obtain_msgClient_demo demo_Message_converts many sdk])
  have v: "Validate ?E ?msg = None" by (simp add: demo_env_def demo_Message_def)
  have ap: "app app_Client \<noteq> None" by (simp add: app_Client_def)
  have b: "fst (SendWithContext ?E app_Client ?msg []) = Panic NilPointerDereference"
    using v ap a by (simp add: SendWithContext_def)
  from a b show ?thesis
    by (simp add: SendMulticast_demo failed_batch_def)
qed

text \<open>
  Claim C2, as stated, fails: after a successful single send the provider's message
  identifier is in the field \<open>ErrorResponseCode\<close> of the Response, and \<open>MessageID\<close> is
  empty.
\<close>

theorem sendByApp_single_counterexample:
  "Send_sdk (demo_env [] (''projects/p/messages/7'', None) partial_batch)
      (MessagingClient (App ''sa.json''))
      \<lparr>Token = ''a'', msg_Data = [(''k'', ''v'')],
       msg_Notification = Some \<lparr>sdk_Title = ''hi'', sdk_Body = ''there''\<rparr>\<rparr>
     = (''projects/p/messages/7'', None)
   \<and> fst (sendByApp (demo_env [] (''projects/p/messages/7'', None) partial_batch) app_Client
            (demo_Message [''a'']) [])
       = Return (Some \<lparr>Success = 1, Failure = 0, Results = [], Error = None,
                       ErrorResponseCode = ''projects/p/messages/7'', MessageID = []\<rparr>, None)"
proof -
  let ?E = "demo_env [] (''projects/p/messages/7'', None) partial_batch"
  let ?msg = "demo_Message [''a'']"
  have one: "length (RegistrationIDs ?msg) = 1" by (simp add: demo_Message_def)
  have sdk: "Send_sdk ?E (MessagingClient (App ''sa.json''))
               \<lparr>Token = hd (RegistrationIDs ?msg), msg_Data = [(''k'', ''v'')],
                msg_Notification = to_sdk_Notification (Notification ?msg)\<rparr>
             = (''projects/p/messages/7'', None)"
    by (rule Send_sdk_demo)
  have "fst (sendByApp ?E app_Client ?msg [])
       = Return (Some \<lparr>Success = 1, Failure = 0, Results = [], Error = None,
                       ErrorResponseCode = ''projects/p/messages/7'', MessageID = []\<rparr>, None)"
    using one
    by (simp add: sendByApp_converted [OF obtain_msgClient_demo demo_Message_converts]
          send_single_result [OF sdk])
  then show ?thesis by (simp add: Send_sdk_demo)
qed

text \<open>
  Claim C2, amended. A single-recipient send over the SDK transport returns, on
  provider success, a Response with Success = 1, Failure = 0, a nil Error and the
  provider's message identifier in the field \<open>ErrorResponseCode\<close> (\<open>MessageID\<close> is
  left empty), and no error; on provider failure, a Response with Success = 0,
  Failure = 1 and Error set to the provider's error, and that error.
\<close>

theorem sendByApp_single_response:
  assumes mc: "obtain_msgClient e c t = (Return (Inr m), c', t')"
      and conv: "data_to_strings [] (Data msg) = Return data"
      and one: "length (RegistrationIDs msg) = 1"
      and sdk: "Send_sdk e m \<lparr>Token = hd (RegistrationIDs msg), msg_Data = data,
                   msg_Notification = to_sdk_Notification (Notification msg)\<rparr> = (r, err)"
  shows "(err = None \<longrightarrow>
            fst (sendByApp e c msg t) =
              Return (Some \<lparr>Success = 1, Failure = 0, Results = [], Error = None,
                             ErrorResponseCode = r, MessageID = []\<rparr>, None))
       \<and> (\<forall>x. err = Some x \<longrightarrow>
            fst (sendByApp e c msg t) =
              Return (Some \<lparr>Success = 0, Failure = 1, Results = [], Error = Some x,
                             ErrorResponseCode = r, MessageID = []\<rparr>, Some x))"
  using one
  by (simp add: sendByApp_converted [OF mc conv] send_single_result [OF sdk])

theorem sendByApp_single_response_witness:
  "fst (sendByApp (demo_env [] (''projects/p/messages/7'', None) partial_batch) app_Client
          (demo_Message [''a'']) [])
     = Return (Some \<lparr>Success = 1, Failure = 0, Results = [], Error = None,
                     ErrorResponseCode = ''projects/p/messages/7'', MessageID = []\<rparr>, None)
   \<and> fst (sendByApp (demo_env [] ([], Some (errorString ''registration token is not valid''))
                   partial_batch) app_Client (demo_Message [''a'']) [])
     = Return (Some \<lparr>Success = 0, Failure = 1, Results = [],
                     Error = Some (errorString ''registration token is not valid''),
                     ErrorResponseCode = [], MessageID = []\<rparr>,
               Some (errorString ''registration token is not valid''))"
proof -
  let ?E1 = "demo_env [] (''projects/p/messages/7'', None) partial_batch"
  let ?E2 = "demo_env [] ([], Some (errorString ''registration token is not valid'')) partial_batch"
  let ?msg = "demo_Message [''a'']"
  let ?mc = "app_Client\<lparr>msgClient := Some (MessagingClient (App ''sa.json''))\<rparr>"
  have one: "length (RegistrationIDs ?msg) = 1" by (simp add: demo_Message_def)
  have mc1: "obtain_msgClient ?E1 app_Client []
               = (Return (Inr (MessagingClient (App ''sa.json''))), ?mc, [] @ [EvMessaging])"
    by (rule obtain_msgClient_demo)
  have mc2: "obtain_msgClient ?E2 app_Client []
               = (Return (Inr (MessagingClient (App ''sa.json''))), ?mc, [] @ [EvMessaging])"
    by (rule obtain_msgClient_demo)
  have conv: "data_to_strings [] (Data ?msg) = Return [(''k'', ''v'')]"
    by (rule demo_Message_converts)
  have sdk1: "Send_sdk ?E1 (MessagingClient (App ''sa.json''))
               \<lparr>Token = hd (RegistrationIDs ?msg), msg_Data = [(''k'', ''v'')],
                msg_Notification = to_sdk_Notification (Notification ?msg)\<rparr>
             = (''projects/p/messages/7'', None)"
    by (rule Send_sdk_demo)
  have sdk2: "Send_sdk ?E2 (MessagingClient (App ''sa.json''))
               \<lparr>Token = hd (RegistrationIDs ?msg), msg_Data = [(''k'', ''v'')],
                msg_Notification = to_sdk_Notification (Notification ?msg)\<rparr>
             = ([], Some (errorString ''registration token is not valid''))"
    by (rule Send_sdk_demo)
  from sendByApp_single_response [OF mc1 conv one sdk1]
  have a: "fst (sendByApp ?E1 app_Client ?msg [])
     = Return (Some \<lparr>Success = 1, Failure = 0, Results = [], Error = None,
                     ErrorResponseCode = ''projects/p/messages/7'', MessageID = []\<rparr>, None)"
    by simp
  from sendByApp_single_response [OF mc2 conv one sdk2]
  have b: "fst (sendByApp ?E2 app_Client ?msg [])
     = Return (Some \<lparr>Success = 0, Failure = 1, Results = [],
                     Error = Some (errorString ''registration token is not valid''),
                     ErrorResponseCode = [], MessageID = []\<rparr>,
               Some (errorString ''registration token is not valid''))"
    by simp
  from a b show ?thesis by blast
qed

subsection \<open>The calls each send path makes\<close>

text \<open>
  \<open>send\<close> only adds events of the HTTP transport and \<open>sendByApp\<close> only events of the
  SDK; a retried send adds what its attempts add.
\<close>

lemma send_trace:
  "\<exists>u. snd (send e c data t) = t @ u \<and> list_all is_http_event u"
  by (simp add: send_def split: sum.splits option.splits)

lemma send_attempt_trace:
  "\<exists>u. snd (snd (send_attempt e c data (r, t))) = t @ u \<and> list_all is_http_event u"
proof -
  obtain u where u: "snd (send e c data t) = t @ u" "list_all is_http_event u"
    using send_trace by blast
  have "snd (snd (send_attempt e c data (r, t))) = snd (send e c data t)"
    by (simp add: send_attempt_def split: prod.splits outcome.splits)
  with u show ?thesis by simp
qed

lemma retry_go_send_trace:
  "\<exists>u. snd (snd (retry_go (send_attempt e c data) k (r, t))) = t @ u \<and> list_all is_http_event u"
proof (induction k arbitrary: r t)
  case 0
  show ?case using send_attempt_trace [of e c data r t] by simp
next
  case (Suc k)
  obtain res r' t' where step: "send_attempt e c data (r, t) = (res, (r', t'))"
    by (metis surj_pair)
  from send_attempt_trace [of e c data r t] step
  obtain u where u: "t' = t @ u" "list_all is_http_event u" by auto
  show ?case
  proof (cases "\<exists>err. res = Return (Some err) \<and> retry_eligible err")
    case True
    then have "retry_go (send_attempt e c data) (Suc k) (r, t)
                 = retry_go (send_attempt e c data) k (r', t')"
      using step by auto
    moreover from Suc.IH [of r' t'] obtain v where
      "snd (snd (retry_go (send_attempt e c data) k (r', t'))) = t' @ v" "list_all is_http_event v"
      by blast
    ultimately show ?thesis using u by auto
  next
    case False
    then have "retry_go (send_attempt e c data) (Suc k) (r, t) = (res, (r', t'))"
      using step by (auto split: outcome.splits option.splits)
    then show ?thesis using u by auto
  qed
qed


lemma SendWithRetryWithContext_trace:
  "\<exists>u. snd (SendWithRetryWithContext e c msg n t) = t @ EvValidate # u
       \<and> list_all (\<lambda>ev. ev = EvMarshal \<or> is_http_event ev) u"
proof (cases "Validate e msg")
  case (Some err)
  then show ?thesis by (simp add: SendWithRetryWithContext_def)
next
  case None
  show ?thesis
  proof (cases "Marshal e msg")
    case (Inl err)
    with None show ?thesis by (simp add: SendWithRetryWithContext_def)
  next
    case (Inr data)
    let ?t = "t @ [EvValidate, EvMarshal]"
    from retry_go_send_trace [of e c data "nat (n - 1)" "Some Response_zero" ?t]
    obtain u where u: "snd (snd (retry (send_attempt e c data) n (Some Response_zero, ?t))) = ?t @ u"
        "list_all is_http_event u"
      unfolding retry_def by blast
    have "snd (SendWithRetryWithContext e c msg n t)
            = snd (snd (retry (send_attempt e c data) n (Some Response_zero, ?t)))"
      using None Inr
      by (simp add: SendWithRetryWithContext_def split: prod.splits outcome.splits option.splits)
    with u have "snd (SendWithRetryWithContext e c msg n t) = t @ EvValidate # (EvMarshal # u)"
      by simp
    moreover have "list_all (\<lambda>ev. ev = EvMarshal \<or> is_http_event ev) (EvMarshal # u)"
      using u(2) by (simp add: list_all_iff)
    ultimately show ?thesis by blast
  qed
qed

lemma obtain_msgClient_trace:
  "\<exists>u. snd (snd (obtain_msgClient e c t)) = t @ u \<and> list_all is_sdk_event u"
  by (simp add: obtain_msgClient_def split: option.splits sum.splits)

lemma sendByApp_trace:
  "\<exists>u. snd (snd (sendByApp e c msg t)) = t @ u \<and> list_all is_sdk_event u"
proof -
  obtain res c' t' where o: "obtain_msgClient e c t = (res, c', t')"
    by (metis surj_pair)
  with obtain_msgClient_trace [of e c t]
  obtain u where u: "t' = t @ u" "list_all is_sdk_event u" by auto
  show ?thesis
  proof (cases res)
    case (Panic p)
    with o u show ?thesis by (simp add: sendByApp_def)
  next
    case (Return x)
    show ?thesis
    proof (cases x)
      case (Inl err)
      with o u Return show ?thesis by (simp add: sendByApp_def)
    next
      case (Inr m)
      show ?thesis
      proof (cases "data_to_strings [] (Data msg)")
        case (Panic p)
        with o u Return Inr show ?thesis by (simp add: sendByApp_def)
      next
        case (Return data)
        from o \<open>res = Return x\<close> Inr
        have mc: "obtain_msgClient e c t = (Return (Inr m), c', t')" by simp
        show ?thesis
          using u
          by (simp add: sendByApp_converted [OF mc Return] snd_send_single snd_send_multicast)
      qed
    qed
  qed
qed

lemma SendWithContext_trace:
  "\<exists>u. snd (snd (SendWithContext e c msg t)) = t @ EvValidate # u
       \<and> list_all (\<lambda>ev. ev = EvMarshal \<or> is_http_event ev \<or> is_sdk_event ev) u"
proof (cases "Validate e msg")
  case (Some err)
  then show ?thesis by (simp add: SendWithContext_def)
next
  case None
  show ?thesis
  proof (cases "app c")
    case (Some a)
    from sendByApp_trace [of e c msg "t @ [EvValidate]"]
    obtain u where "snd (snd (sendByApp e c msg (t @ [EvValidate]))) = (t @ [EvValidate]) @ u"
      "list_all is_sdk_event u" by blast
    with None Some show ?thesis
      by (auto simp: SendWithContext_def list_all_iff)
  next
    case noapp: None
    show ?thesis
    proof (cases "Marshal e msg")
      case (Inl err)
      with None noapp show ?thesis by (simp add: SendWithContext_def)
    next
      case (Inr data)
      from send_trace [of e c data "t @ [EvValidate, EvMarshal]"]
      obtain u where "snd (send e c data (t @ [EvValidate, EvMarshal])) = (t @ [EvValidate, EvMarshal]) @ u"
        "list_all is_http_event u" by blast
      with None noapp Inr show ?thesis
        by (auto simp: SendWithContext_def split_beta list_all_iff)
    qed
  qed
qed

lemma no_Validate_after:
  "list_all (\<lambda>ev. ev = EvMarshal \<or> is_http_event ev \<or> is_sdk_event ev) u \<Longrightarrow> EvValidate \<notin> set u"
  by (auto simp: list_all_iff)

lemma no_Validate_after_http:
  "list_all (\<lambda>ev. ev = EvMarshal \<or> is_http_event ev) u \<Longrightarrow> EvValidate \<notin> set u"
  by (auto simp: list_all_iff)

text \<open>
  Claim C9. On each of the four send paths the first call is the message validation:
  serialization and every network call come after it, and it is not called again,
  however many attempts a retried send makes. When validation fails, the call
  returns a nil Response and the validation error, having made no other call.
\<close>

theorem validation_first_and_once:
  "(\<exists>u. snd (snd (SendWithContext e c msg t)) = t @ EvValidate # u \<and> EvValidate \<notin> set u)
   \<and> (\<exists>u. snd (snd (Send e c msg t)) = t @ EvValidate # u \<and> EvValidate \<notin> set u)
   \<and> (\<exists>u. snd (SendWithRetryWithContext e c msg n t) = t @ EvValidate # u \<and> EvValidate \<notin> set u)
   \<and> (\<exists>u. snd (SendWithRetry e c msg n t) = t @ EvValidate # u \<and> EvValidate \<notin> set u)
   \<and> (\<forall>err. Validate e msg = Some err \<longrightarrow>
          SendWithContext e c msg t = (Return (None, Some err), c, t @ [EvValidate])
        \<and> Send e c msg t = (Return (None, Some err), c, t @ [EvValidate])
        \<and> SendWithRetryWithContext e c msg n t = (Return (None, Some err), t @ [EvValidate])
        \<and> SendWithRetry e c msg n t = (Return (None, Some err), t @ [EvValidate]))"
proof -
  have once: "\<exists>u. snd (snd (SendWithContext e c msg t)) = t @ EvValidate # u \<and> EvValidate \<notin> set u"
    using SendWithContext_trace [of e c msg t] no_Validate_after by blast
  have retried: "\<exists>u. snd (SendWithRetryWithContext e c msg n t) = t @ EvValidate # u
                    \<and> EvValidate \<notin> set u"
    using SendWithRetryWithContext_trace [of e c msg n t] no_Validate_after_http by blast
  have invalid: "\<forall>err. Validate e msg = Some err \<longrightarrow>
          SendWithContext e c msg t = (Return (None, Some err), c, t @ [EvValidate])
        \<and> SendWithRetryWithContext e c msg n t = (Return (None, Some err), t @ [EvValidate])"
    by (simp add: SendWithContext_def SendWithRetryWithContext_def)
  show ?thesis
    unfolding Send_def SendWithRetry_def
    using once retried invalid by blast
qed

theorem validation_first_and_once_witness:
  "SendWithContext (demo_env [] ([], None) failed_batch) key_Client (demo_Message []) []
     = (Return (None, Some (errorString ''invalid message'')), key_Client, [EvValidate])
   \<and> Send (demo_env [] ([], None) failed_batch) app_Client (demo_Message []) []
     = (Return (None, Some (errorString ''invalid message'')), app_Client, [EvValidate])
   \<and> SendWithRetryWithContext (demo_env [] ([], None) failed_batch) key_Client (demo_Message []) 3 []
     = (Return (None, Some (errorString ''invalid message'')), [EvValidate])
   \<and> SendWithRetry (demo_env [] ([], None) failed_batch) key_Client (demo_Message []) 3 []
     = (Return (None, Some (errorString ''invalid message'')), [EvValidate])
   \<and> snd (SendWithRetry
             (demo_env [reply 503 ''503 Service Unavailable'' [],
                        reply 500 ''500 Internal Server Error'' []] ([], None) failed_batch)
             key_Client (demo_Message [''a'']) 3 [])
     = [EvValidate, EvMarshal,
        EvDo (add_headers key_Client
                \<lparr>req_Method = ''POST'', req_URL = DefaultEndpoint, req_Body = ''{}'',
                 req_Header = []\<rparr>),
        EvDo (add_headers key_Client
                \<lparr>req_Method = ''POST'', req_URL = DefaultEndpoint, req_Body = ''{}'',
                 req_Header = []\<rparr>),
        EvDo (add_headers key_Client
                \<lparr>req_Method = ''POST'', req_URL = DefaultEndpoint, req_Body = ''{}'',
                 req_Header = []\<rparr>),
        EvDecode]"
proof -
  let ?E = "demo_env [] ([], None) failed_batch"
  have bad: "Validate ?E (demo_Message []) = Some (errorString ''invalid message'')"
    by (simp add: demo_env_def demo_Message_def)
  note T1 = validation_first_and_once [of ?E key_Client "demo_Message []" "[]" 3]
  note T2 = validation_first_and_once [of ?E app_Client "demo_Message []" "[]" 3]
  have a: "SendWithContext ?E key_Client (demo_Message []) []
     = (Return (None, Some (errorString ''invalid message'')), key_Client, [EvValidate])"
    using T1 bad by simp
  have b: "Send ?E app_Client (demo_Message []) []
     = (Return (None, Some (errorString ''invalid message'')), app_Client, [EvValidate])"
    using T2 bad by simp
  have c: "SendWithRetryWithContext ?E key_Client (demo_Message []) 3 []
     = (Return (None, Some (errorString ''invalid message'')), [EvValidate])"
    using T1 bad by simp
  have d: "SendWithRetry ?E key_Client (demo_Message []) 3 []
     = (Return (None, Some (errorString ''invalid message'')), [EvValidate])"
    using T1 bad by simp
  have e: "snd (SendWithRetry
             (demo_env [reply 503 ''503 Service Unavailable'' [],
                        reply 500 ''500 Internal Server Error'' []] ([], None) failed_batch)
             key_Client (demo_Message [''a'']) 3 [])
     = [EvValidate, EvMarshal,
        EvDo (add_headers key_Client
                \<lparr>req_Method = ''POST'', req_URL = DefaultEndpoint, req_Body = ''{}'',
                 req_Header = []\<rparr>),
        EvDo (add_headers key_Client
                \<lparr>req_Method = ''POST'', req_URL = DefaultEndpoint, req_Body = ''{}'',
                 req_Header = []\<rparr>),
        EvDo (add_headers key_Client
                \<lparr>req_Method = ''POST'', req_URL = DefaultEndpoint, req_Body = ''{}'',
                 req_Header = []\<rparr>),
        EvDecode]"
    by code_simp
  from a b c d e show ?thesis by blast
qed

subsection \<open>The retry path of a client built from credentials\<close>








end
